theory Spec2Isabelle
  imports Complex_Main
begin

section \<open>JavaScript values and text conversion\<close>

text \<open>
  The lesson module compares a submitted answer with a question's \<open>correct_answer\<close>
  (\<open>handleAnswer\<close>, lessons module). Both are JSON-like JavaScript values. Strings are
  lists of code units below 256 (\<^typ>\<open>char\<close>). The code modelled here only prints
  numbers and tests them for zero, so a number is kept as the text that \<open>String\<close> gives
  for it: \<open>42\<close>, \<open>2.5\<close>, \<open>1e+21\<close>, \<open>Infinity\<close>, \<open>NaN\<close>, and \<open>0\<close> for both zeros.
\<close>

datatype jsval =
    JNull
  | JUndefined
  | JBool bool
  | JNum string
  | JStr string
  | JArr "jsval list"
  | JObj "(string \<times> jsval) list"

datatype js_error =
    SyntaxError
  | TypeError
  | NetworkError
  | Error string

text \<open>Exceptions are values of \<^typ>\<open>js_error\<close> on the left of a sum; \<open>bind_js\<close> runs
  the next step unless the first one threw, \<open>try_catch\<close> is \<open>try { } catch { }\<close>.\<close>

definition try_catch :: "js_error + 'a \<Rightarrow> (js_error \<Rightarrow> js_error + 'a) \<Rightarrow> js_error + 'a" where
  "try_catch body handler = (case body of Inl e \<Rightarrow> handler e | Inr v \<Rightarrow> Inr v)"

definition bind_js :: "js_error + 'a \<Rightarrow> ('a \<Rightarrow> js_error + 'b) \<Rightarrow> js_error + 'b" where
  "bind_js m f = (case m of Inl e \<Rightarrow> Inl e | Inr v \<Rightarrow> f v)"

text \<open>The results of a list of steps run from left to right, or the first exception.\<close>

fun sequence_js :: "(js_error + 'a) list \<Rightarrow> js_error + 'a list" where
  "sequence_js [] = Inr []"
| "sequence_js (Inl e # rest) = Inl e"
| "sequence_js (Inr v # rest) = (case sequence_js rest of Inl e \<Rightarrow> Inl e | Inr vs \<Rightarrow> Inr (v # vs))"

fun join :: "string \<Rightarrow> string list \<Rightarrow> string" where
  "join sep [] = []"
| "join sep [x] = x"
| "join sep (x # y # ys) = x @ sep @ join sep (y # ys)"

text \<open>
  \<open>String(v)\<close>. An array prints its elements joined by commas, with \<open>null\<close> and
  \<open>undefined\<close> elements printed as the empty string. A plain object prints as
  \<open>[object Object]\<close> through \<open>Object.prototype.toString\<close>, unless it has an own member
  named \<open>toString\<close>: a member that came from JSON is not callable, and \<open>valueOf\<close> then
  gives no primitive (the inherited one returns the object, an own one is not callable
  either), so the conversion throws a \<open>TypeError\<close>. An array throws when the conversion
  of one of its elements does.
\<close>

fun String_js :: "jsval \<Rightarrow> js_error + string" where
  "String_js JNull = Inr ''null''"
| "String_js JUndefined = Inr ''undefined''"
| "String_js (JBool b) = Inr (if b then ''true'' else ''false'')"
| "String_js (JNum text) = Inr text"
| "String_js (JStr s) = Inr s"
| "String_js (JArr xs) =
     bind_js
       (sequence_js (map (\<lambda>x. if x = JNull \<or> x = JUndefined then Inr [] else String_js x) xs))
       (\<lambda>texts. Inr (join '','' texts))"
| "String_js (JObj kvs) =
     (if ''toString'' \<in> fst ` set kvs then Inl TypeError else Inr ''[object Object]'')"

text \<open>\<open>String.prototype.toLowerCase\<close> on code units below 256: the ASCII capitals and
  the Latin-1 capitals (\<open>0xC0\<close> to \<open>0xDE\<close> without the multiplication sign \<open>0xD7\<close>) move
  up by 32.\<close>

definition lowerChar :: "char \<Rightarrow> char" where
  "lowerChar c =
     (let n = (of_char c :: nat)
      in if (65 \<le> n \<and> n \<le> 90) \<or> (192 \<le> n \<and> n \<le> 214) \<or> (216 \<le> n \<and> n \<le> 222)
         then char_of (n + 32) else c)"

definition toLowerCase :: "string \<Rightarrow> string" where
  "toLowerCase s = map lowerChar s"

text \<open>\<open>String.prototype.trim\<close> removes white space and line terminators from both ends;
  below 256 these are TAB, LF, VT, FF, CR, SP and NBSP.\<close>

definition isWhiteSpace :: "char \<Rightarrow> bool" where
  "isWhiteSpace c = ((of_char c :: nat) \<in> {9, 10, 11, 12, 13, 32, 160})"

definition trim :: "string \<Rightarrow> string" where
  "trim s = rev (dropWhile isWhiteSpace (rev (dropWhile isWhiteSpace s)))"

section \<open>The answer check of \<open>handleAnswer\<close>\<close>

text \<open>
  \<^verbatim>\<open>
  let correctAnswer = question.correct_answer;
  if (typeof correctAnswer === 'string') {
      try { correctAnswer = JSON.parse(correctAnswer); } catch { }
  }
  const isCorrect = String(answer).toLowerCase().trim() ===
      String(correctAnswer).toLowerCase().trim();
  \<close>
  \<open>JSON.parse\<close> belongs to the JavaScript runtime, not to the repository: it is the
  parameter \<open>parse\<close>, which either returns the decoded value or throws. Only the call of
  \<open>JSON.parse\<close> is inside the \<open>try\<close>; the two conversions to text are outside it, the
  one of the answer first.
\<close>

definition decodeCorrectAnswer ::
  "(string \<Rightarrow> js_error + jsval) \<Rightarrow> jsval \<Rightarrow> js_error + jsval" where
  "decodeCorrectAnswer parse correct_answer =
     (case correct_answer of
        JStr s \<Rightarrow> try_catch (parse s) (\<lambda>e. Inr correct_answer)
      | _ \<Rightarrow> Inr correct_answer)"

definition checkAnswer ::
  "(string \<Rightarrow> js_error + jsval) \<Rightarrow> jsval \<Rightarrow> jsval \<Rightarrow> js_error + bool" where
  "checkAnswer parse answer correct_answer =
     bind_js (decodeCorrectAnswer parse correct_answer) (\<lambda>correctAnswer.
     bind_js (String_js answer) (\<lambda>answerText.
     bind_js (String_js correctAnswer) (\<lambda>correctText.
       Inr (trim (toLowerCase answerText) = trim (toLowerCase correctText)))))"

text \<open>A decoder for runs on concrete inputs. It agrees with \<open>JSON.parse\<close> on the
  literals \<open>null\<close>, \<open>true\<close> and \<open>false\<close> and on string literals without escapes, with
  JSON white space (TAB, LF, CR, SP) around them, and on texts that are not JSON, where
  it throws. Numbers, arrays, objects and escapes do not occur in the runs below.\<close>

definition json_ws :: "char \<Rightarrow> bool" where
  "json_ws c = ((of_char c :: nat) \<in> {9, 10, 13, 32})"

definition parse_literal :: "string \<Rightarrow> js_error + jsval" where
  "parse_literal s =
     (let t = rev (dropWhile json_ws (rev (dropWhile json_ws s)))
      in if t = ''null'' then Inr JNull
         else if t = ''true'' then Inr (JBool True)
         else if t = ''false'' then Inr (JBool False)
         else if 2 \<le> length t \<and> hd t = CHR 0x22 \<and> last t = CHR 0x22
                 \<and> CHR 0x22 \<notin> set (butlast (tl t)) \<and> CHR 0x5C \<notin> set (butlast (tl t))
                 \<and> list_all (\<lambda>c. 32 \<le> (of_char c :: nat)) t
              then Inr (JStr (butlast (tl t)))
         else Inl SyntaxError)"

subsection \<open>The Answer Normalizer as the specification words it\<close>

text \<open>Decode the structured wrapper if present, falling back to the raw value when
  decoding fails; convert to text; trim surrounding white space; compare without regard
  to case. A value that has no text has no canonical string and equals nothing.\<close>

definition spec_decode :: "(string \<Rightarrow> js_error + jsval) \<Rightarrow> jsval \<Rightarrow> jsval" where
  "spec_decode parse stored =
     (case stored of
        JStr wrapper \<Rightarrow> (case parse wrapper of Inr v \<Rightarrow> v | Inl e \<Rightarrow> stored)
      | _ \<Rightarrow> stored)"

definition spec_canonical :: "jsval \<Rightarrow> string option" where
  "spec_canonical v = (case String_js v of Inr text \<Rightarrow> Some (trim text) | Inl e \<Rightarrow> None)"



section \<open>Timer (app module)\<close>

text \<open>
  A \<open>Timer\<close> object holds its duration, the remaining seconds and the handle of its
  running \<open>setInterval\<close>, if any. The window's table of live intervals is the
  \<open>registry\<close>: \<open>setInterval\<close> enters a fresh handle, \<open>clearInterval\<close> removes one,
  and only a live handle fires. The \<open>update\<close> method only writes to the page and is left
  out; \<open>onTick\<close> is \<open>null\<close> wherever the repository constructs a Timer.
\<close>

record Timer =
  duration :: int
  remaining :: int
  interval :: "nat option"

record registry =
  active :: "nat set"
  fresh :: nat

definition new_Timer :: "int \<Rightarrow> Timer" where
  "new_Timer d = \<lparr>duration = d, remaining = d, interval = None\<rparr>"

definition Timer_start :: "Timer \<Rightarrow> registry \<Rightarrow> Timer \<times> registry" where
  "Timer_start t r =
     (t\<lparr>interval := Some (fresh r)\<rparr>,
      r\<lparr>active := insert (fresh r) (active r), fresh := Suc (fresh r)\<rparr>)"

definition Timer_stop :: "Timer \<Rightarrow> registry \<Rightarrow> Timer \<times> registry" where
  "Timer_stop t r =
     (case interval t of
        Some h \<Rightarrow> (t\<lparr>interval := None\<rparr>, r\<lparr>active := active r - {h}\<rparr>)
      | None \<Rightarrow> (t, r))"

definition Timer_reset :: "Timer \<Rightarrow> registry \<Rightarrow> Timer \<times> registry" where
  "Timer_reset t r =
     (case Timer_stop t r of (t1, r1) \<Rightarrow> (t1\<lparr>remaining := duration t1\<rparr>, r1))"

text \<open>The interval callback of \<open>start\<close>. The third component tells whether
  \<open>onComplete\<close> is invoked by this tick.\<close>

definition Timer_tick :: "Timer \<Rightarrow> registry \<Rightarrow> Timer \<times> registry \<times> bool" where
  "Timer_tick t r =
     (let t1 = t\<lparr>remaining := remaining t - 1\<rparr>
      in if remaining t1 \<le> 0
         then (case Timer_stop t1 r of (t2, r2) \<Rightarrow> (t2, r2, True))
         else (t1, r, False))"

text \<open>One Timer with a counting completion callback, driven by interval firings and by
  calls of \<open>stop\<close> and \<open>reset\<close>.\<close>

record timer_sys =
  tm :: Timer
  reg :: registry
  completions :: nat

datatype timer_event = TFire nat | TStop | TReset


definition stop_sys :: "timer_sys \<Rightarrow> timer_sys" where
  "stop_sys s = (case Timer_stop (tm s) (reg s) of (t, r) \<Rightarrow> s\<lparr>tm := t, reg := r\<rparr>)"

definition reset_sys :: "timer_sys \<Rightarrow> timer_sys" where
  "reset_sys s = (case Timer_reset (tm s) (reg s) of (t, r) \<Rightarrow> s\<lparr>tm := t, reg := r\<rparr>)"

definition fire_sys :: "nat \<Rightarrow> timer_sys \<Rightarrow> timer_sys" where
  "fire_sys h s =
     (if h \<in> active (reg s)
      then (case Timer_tick (tm s) (reg s) of
              (t, r, done) \<Rightarrow>
                s\<lparr>tm := t, reg := r,
                  completions := (if done then Suc (completions s) else completions s)\<rparr>)
      else s)"

fun timer_exec :: "timer_event \<Rightarrow> timer_sys \<Rightarrow> timer_sys" where
  "timer_exec (TFire h) s = fire_sys h s"
| "timer_exec TStop s = stop_sys s"
| "timer_exec TReset s = reset_sys s"

definition timer_run :: "timer_event list \<Rightarrow> timer_sys \<Rightarrow> timer_sys" where
  "timer_run evs s = foldl (\<lambda>s e. timer_exec e s) s evs"


section \<open>Lesson module\<close>

record question =
  q_id :: int
  q_question :: "string option"
  q_sentence :: "string option"
  correct_answer :: jsval
  q_options :: "string list option"

record answer_record =
  question_id :: int
  user_answer :: jsval
  time_taken_ms :: int
  question_text :: string
  a_correct_answer :: jsval
  a_options :: "string list option"

record lesson_payload =
  questions :: "question list option"
  time_per_question :: "int option"

text \<open>
  The module-level variables of the lesson module, followed by what the page and the
  window hold for it: the interval registry, the number of \<open>setTimeout\<close> callbacks that
  \<open>handleAnswer\<close> has scheduled and that have not run yet, whether the option buttons of
  the rendered question are enabled (\<open>render\<close> creates them enabled, \<open>showResult\<close>
  disables them all), the verdicts passed to \<open>showResult\<close>, the answer lists handed to
  \<open>api.submitLesson\<close>, and the exceptions that left an event handler.
\<close>

record lesson_state =
  currentQuestions :: "question list"
  currentIndex :: nat
  answers :: "answer_record list"
  startTime :: int
  lessonTimer :: "Timer option"
  currentLessonType :: "string option"
  perQuestion :: bool
  intervals :: registry
  pendingAdvance :: nat
  optionsEnabled :: bool
  shownResults :: "bool list"
  submissions :: "answer_record list list"
  uncaught :: "js_error list"

definition module_init :: lesson_state where
  "module_init =
     \<lparr>currentQuestions = [], currentIndex = 0, answers = [], startTime = 0,
      lessonTimer = None, currentLessonType = None, perQuestion = False,
      intervals = \<lparr>active = {}, fresh = 1\<rparr>, pendingAdvance = 0,
      optionsEnabled = False, shownResults = [], submissions = [], uncaught = []\<rparr>"

text \<open>\<open>question.question || question.sentence || ''\<close>: the first non-empty text.\<close>

definition text_of :: "question \<Rightarrow> string" where
  "text_of q =
     (case q_question q of
        Some s \<Rightarrow> if s \<noteq> [] then s else (case q_sentence q of Some t \<Rightarrow> t | None \<Rightarrow> [])
      | None \<Rightarrow> (case q_sentence q of Some t \<Rightarrow> t | None \<Rightarrow> []))"

definition is_sprint :: "string option \<Rightarrow> bool" where
  "is_sprint ty = (ty = Some ''grammar-sprint'' \<or> ty = Some ''word-sprint'')"

definition submitLesson :: "lesson_state \<Rightarrow> lesson_state" where
  "submitLesson s =
     (let s1 = (case lessonTimer s of
                  Some t \<Rightarrow> (case Timer_stop t (intervals s) of
                               (t1, r1) \<Rightarrow> s\<lparr>lessonTimer := Some t1, intervals := r1\<rparr>)
                | None \<Rightarrow> s)
      in s1\<lparr>submissions := submissions s1 @ [answers s1]\<rparr>)"

text \<open>\<open>renderCurrentQuestion\<close>: after the last question the lesson is submitted,
  otherwise the question under the cursor is rendered with fresh, enabled option
  buttons. Rendering is taken to succeed: the options are strings and a gap-fill
  question has its sentence.\<close>

definition renderCurrentQuestion :: "lesson_state \<Rightarrow> lesson_state" where
  "renderCurrentQuestion s =
     (if currentIndex s \<ge> length (currentQuestions s) then submitLesson s
      else s\<lparr>optionsEnabled := True\<rparr>)"

text \<open>\<open>window.handleAnswer\<close>, up to the \<open>setTimeout\<close> call; \<open>now\<close> is \<open>Date.now()\<close>.
  The calls into the page (\<open>selectAnswer\<close>, \<open>showResult\<close>, \<open>playFeedbackSound\<close>) are
  taken to return normally.\<close>

definition handleAnswer ::
  "(string \<Rightarrow> js_error + jsval) \<Rightarrow> jsval \<Rightarrow> int \<Rightarrow> lesson_state \<Rightarrow> lesson_state" where
  "handleAnswer parse answer now s =
     (if \<not> currentIndex s < length (currentQuestions s) then s
      else
        let question = currentQuestions s ! currentIndex s;
            s1 = s\<lparr>answers := answers s @
                   [\<lparr>question_id = q_id question, user_answer = answer,
                     time_taken_ms = now - startTime s, question_text = text_of question,
                     a_correct_answer = correct_answer question,
                     a_options = q_options question\<rparr>]\<rparr>
        in case checkAnswer parse answer (correct_answer question) of
             Inl e \<Rightarrow> s1\<lparr>uncaught := uncaught s1 @ [e]\<rparr>
           | Inr isCorrect \<Rightarrow>
               s1\<lparr>shownResults := shownResults s1 @ [isCorrect], optionsEnabled := False,
                  pendingAdvance := Suc (pendingAdvance s1)\<rparr>)"

text \<open>The callback that \<open>handleAnswer\<close> schedules one second later.\<close>

definition advance :: "lesson_state \<Rightarrow> lesson_state" where
  "advance s =
     (let s1 = s\<lparr>currentIndex := Suc (currentIndex s)\<rparr>;
          s2 = (case lessonTimer s1 of
                  Some t \<Rightarrow>
                    if is_sprint (currentLessonType s1)
                    then (case Timer_reset t (intervals s1) of
                            (t1, r1) \<Rightarrow> (case Timer_start t1 r1 of
                              (t2, r2) \<Rightarrow> s1\<lparr>lessonTimer := Some t2, intervals := r2\<rparr>))
                    else s1
                | None \<Rightarrow> s1)
      in renderCurrentQuestion s2)"

definition onComplete ::
  "(string \<Rightarrow> js_error + jsval) \<Rightarrow> int \<Rightarrow> lesson_state \<Rightarrow> lesson_state" where
  "onComplete parse now s =
     (if perQuestion s then handleAnswer parse JNull now s else submitLesson s)"

definition setupTimer :: "bool \<Rightarrow> int \<Rightarrow> bool \<Rightarrow> lesson_state \<Rightarrow> lesson_state" where
  "setupTimer timerEl d perQ s =
     (if \<not> timerEl then s
      else case Timer_start (new_Timer d) (intervals s) of
             (t, r) \<Rightarrow> s\<lparr>lessonTimer := Some t, intervals := r, perQuestion := perQ\<rparr>)"

datatype init_outcome = NoContainer | LoadFailed js_error | NoQuestions | Started

text \<open>
  \<open>initLesson(type)\<close>. \<open>container\<close> and \<open>timerEl\<close> tell whether the page has the lesson
  container and the timer element; \<open>loaded\<close> is the outcome of the \<open>api\<close> request for the
  lesson. Every exception of the \<open>try\<close> block is caught and reported by a toast, so each
  path returns normally; the outcome names the path.
\<close>

definition initLesson ::
  "bool \<Rightarrow> bool \<Rightarrow> string \<Rightarrow> js_error + lesson_payload \<Rightarrow> int \<Rightarrow> lesson_state
     \<Rightarrow> init_outcome \<times> lesson_state" where
  "initLesson container timerEl type loaded now s =
     (if \<not> container then (NoContainer, s)
      else case loaded of
        Inl e \<Rightarrow> (LoadFailed e, s)
      | Inr currentLesson \<Rightarrow>
          let s1 = s\<lparr>currentQuestions := (case questions currentLesson of Some qs \<Rightarrow> qs | None \<Rightarrow> []),
                     currentIndex := 0, answers := [], startTime := now,
                     currentLessonType := Some type\<rparr>
          in if length (currentQuestions s1) = 0 then (NoQuestions, s1)
             else
               let s2 = (if type = ''grammar-sprint'' \<or> type = ''word-sprint''
                         then setupTimer timerEl
                                (case time_per_question currentLesson of
                                   Some d \<Rightarrow> if d = 0 then 20 else d | None \<Rightarrow> 20)
                                True s1
                         else s1)
               in (Started, renderCurrentQuestion s2))"

datatype lesson_event = Click string int | Fire nat int | Timeout

text \<open>
  What the page can do to a session: the learner clicks an option button (its
  \<open>onclick\<close> calls \<open>handleAnswer\<close> with the option text; a disabled button does
  nothing), a live interval of the lesson timer fires, or a scheduled \<open>setTimeout\<close>
  callback runs.
\<close>

fun lesson_exec ::
  "(string \<Rightarrow> js_error + jsval) \<Rightarrow> lesson_event \<Rightarrow> lesson_state \<Rightarrow> lesson_state" where
  "lesson_exec parse (Click option now) s =
     (if optionsEnabled s then handleAnswer parse (JStr option) now s else s)"
| "lesson_exec parse (Fire h now) s =
     (if h \<in> active (intervals s)
      then (case lessonTimer s of
              Some t \<Rightarrow>
                (case Timer_tick t (intervals s) of
                   (t1, r1, done) \<Rightarrow>
                     let s1 = s\<lparr>lessonTimer := Some t1, intervals := r1\<rparr>
                     in if done then onComplete parse now s1 else s1)
            | None \<Rightarrow> s)
      else s)"
| "lesson_exec parse Timeout s =
     (if 0 < pendingAdvance s then advance (s\<lparr>pendingAdvance := pendingAdvance s - 1\<rparr>)
      else s)"

definition lesson_run ::
  "(string \<Rightarrow> js_error + jsval) \<Rightarrow> lesson_event list \<Rightarrow> lesson_state \<Rightarrow> lesson_state" where
  "lesson_run parse evs s = foldl (\<lambda>s e. lesson_exec parse e s) s evs"

subsection \<open>Questions for concrete runs\<close>

definition null_question :: question where
  "null_question =
     \<lparr>q_id = 7, q_question = Some ''Complete the phrase: ___ and void'', q_sentence = None,
      correct_answer = JStr ''\"null\"'', q_options = Some [''zero'', ''null'', ''empty'']\<rparr>"

definition fast_question :: question where
  "fast_question =
     \<lparr>q_id = 1, q_question = Some ''Synonym of fast:'', q_sentence = None,
      correct_answer = JStr ''\"quick\"'', q_options = Some [''slow'', ''quick'', ''late'']\<rparr>"

text \<open>A matching question whose correct answer is the JSON object
  \<open>{"toString": "to text", "length": "size"}\<close>.\<close>

definition method_question :: question where
  "method_question =
     \<lparr>q_id = 9, q_question = Some ''Match each method with what it returns'', q_sentence = None,
      correct_answer = JObj [(''toString'', JStr ''to text''), (''length'', JStr ''size'')],
      q_options = Some [''to text'', ''size'']\<rparr>"

section \<open>Numbers\<close>

text \<open>
  The sub-scores of the speaking module are JavaScript numbers, that is IEEE 754 doubles.
  A finite double is given by its value, a rational; both zeros are \<open>Fin 0\<close> (they print
  alike and nothing here divides by them). Every sum and quotient is rounded to the
  nearest double, ties to the even significand: \<open>binade x\<close> is the exponent \<open>e\<close> with
  \<open>2^e \<le> |x| < 2^(e+1)\<close>, doubles in that binade are \<open>2^(e-52)\<close> apart (\<open>2^(-1074)\<close>
  apart below \<open>2^(-1022)\<close>), and a result of magnitude \<open>2^1024\<close> or more is an infinity.
\<close>

datatype jsnumber = Fin rat | PosInf | NegInf | NaN

function bitlen :: "int \<Rightarrow> nat" where
  "bitlen n = (if n \<le> 0 then 0 else Suc (bitlen (n div 2)))"
  by auto
termination
  by (relation "measure nat") auto

declare bitlen.simps [simp del]

definition pow2 :: "int \<Rightarrow> rat" where
  "pow2 e = (if 0 \<le> e then 2 ^ nat e else 1 / 2 ^ nat (- e))"

definition binade :: "rat \<Rightarrow> int" where
  "binade x =
     (let a = \<bar>x\<bar>
      in if 1 \<le> a then int (bitlen \<lfloor>a\<rfloor>) - 1
         else - int (bitlen (\<lceil>1 / a\<rceil> - 1)))"

definition round_half_even :: "rat \<Rightarrow> int" where
  "round_half_even q =
     (let f = \<lfloor>q\<rfloor>; d = q - of_int f
      in if d < 1 / 2 then f
         else if 1 / 2 < d then f + 1
         else if even f then f else f + 1)"

definition to_double :: "rat \<Rightarrow> jsnumber" where
  "to_double x =
     (if x = 0 then Fin 0
      else
        let e = max (binade x) (- 1022);
            ulp = pow2 (e - 52);
            r = of_int (round_half_even (x / ulp)) * ulp
        in if pow2 1024 \<le> \<bar>r\<bar> then (if 0 < x then PosInf else NegInf) else Fin r)"

text \<open>\<open>a + b\<close> on numbers.\<close>

fun js_add :: "jsnumber \<Rightarrow> jsnumber \<Rightarrow> jsnumber" where
  "js_add (Fin a) (Fin b) = to_double (a + b)"
| "js_add NaN b = NaN"
| "js_add a NaN = NaN"
| "js_add PosInf NegInf = NaN"
| "js_add NegInf PosInf = NaN"
| "js_add PosInf b = PosInf"
| "js_add a PosInf = PosInf"
| "js_add NegInf b = NegInf"
| "js_add a NegInf = NegInf"

text \<open>\<open>a / 3\<close> on numbers.\<close>

fun js_div3 :: "jsnumber \<Rightarrow> jsnumber" where
  "js_div3 (Fin a) = to_double (a / 3)"
| "js_div3 a = a"

text \<open>\<open>Math.round\<close>: the nearest integer, the upper one of two; infinities and \<open>NaN\<close>
  stay.\<close>

fun Math_round :: "jsnumber \<Rightarrow> jsnumber" where
  "Math_round (Fin x) = Fin (of_int \<lfloor>x + 1 / 2\<rfloor>)"
| "Math_round a = a"

section \<open>Speaking module: roleplay and free talk\<close>

text \<open>
  A field that a response object does not have reads as \<open>undefined\<close>, here \<open>None\<close>.
\<close>

record analysis =
  fluency_score :: jsnumber
  grammar_score :: jsnumber
  vocabulary_score :: jsnumber

record roleplay_result =
  user_message :: "string option"
  ai_message :: "string option"
  r_analysis :: "analysis option"
  is_complete :: bool
  detail :: "string option"

record averages =
  fluency :: jsnumber
  grammar :: jsnumber
  vocabulary :: jsnumber

record freetalk_result =
  ft_user_message :: "string option"
  ft_ai_message :: "string option"
  session_averages :: "averages option"
  current_analysis :: "analysis option"

text \<open>What \<open>fetch\<close> delivers: no response at all (the promise rejects), or a response
  with a status and a body that is JSON (\<open>Some\<close>) or not.\<close>

datatype 'a http_reply = NoResponse | Response nat "'a option"

record speaking_state =
  conversationHistory :: "(string option \<times> bool) list"
  scheduledMessages :: "string option list"
  toasts :: "string list"
  resultScore :: "jsnumber option"
  sessionAvg :: "jsnumber option"

definition addMessage :: "string option \<Rightarrow> bool \<Rightarrow> speaking_state \<Rightarrow> speaking_state" where
  "addMessage text isAi s = s\<lparr>conversationHistory := conversationHistory s @ [(text, isAi)]\<rparr>"

text \<open>\<open>api.roleplayRespond\<close> and \<open>api.freeTalkRespond\<close>:
  \<^verbatim>\<open>fetch(url, {...}).then(r => r.json())\<close>; the status is not looked at.\<close>

definition roleplayRespond :: "'a http_reply \<Rightarrow> js_error + 'a" where
  "roleplayRespond reply =
     (case reply of
        NoResponse \<Rightarrow> Inl NetworkError
      | Response status body \<Rightarrow> (case body of None \<Rightarrow> Inl SyntaxError | Some v \<Rightarrow> Inr v))"

text \<open>
  \<open>showFeedback(analysis)\<close>. The three flags tell whether the page has the elements
  \<open>feedback-panel\<close>, \<open>score-display\<close> and \<open>feedback-text\<close>. Without the panel the
  function returns at once. Otherwise it writes the scores into \<open>score-display\<close>, a
  \<open>TypeError\<close> when the analysis is \<open>undefined\<close> or the element is missing, and then the
  feedback into \<open>feedback-text\<close>, a \<open>TypeError\<close> when that element is missing. The
  feedback of an analysis is a text and its corrections, when present, are an array of
  texts.
\<close>

definition showFeedback :: "bool \<Rightarrow> bool \<Rightarrow> bool \<Rightarrow> analysis option \<Rightarrow> js_error + unit" where
  "showFeedback panel scoreDisplay feedbackText a =
     (if \<not> panel then Inr ()
      else if a = None \<or> \<not> scoreDisplay then Inl TypeError
      else if \<not> feedbackText then Inl TypeError
      else Inr ())"

text \<open>\<open>showSessionComplete(result)\<close> writes into the container that holds the
  conversation.\<close>

definition showSessionComplete ::
  "roleplay_result \<Rightarrow> speaking_state \<Rightarrow> (js_error + unit) \<times> speaking_state" where
  "showSessionComplete result s =
     (case r_analysis result of
        None \<Rightarrow> (Inl TypeError, s)
      | Some a \<Rightarrow>
          let avgScore =
                Math_round
                  (js_div3 (js_add (js_add (fluency_score a) (grammar_score a)) (vocabulary_score a)))
          in (Inr (), s\<lparr>resultScore := Some avgScore\<rparr>))"

text \<open>
  An exception leaves the effects that came before it in place, so each function
  returns the state together with its completion. \<open>panel\<close> tells whether
  \<open>showConversationUI\<close> has rendered the roleplay interface; its template holds the
  feedback panel with \<open>score-display\<close> and \<open>feedback-text\<close> inside, so the three elements
  are there together or not at all.
\<close>

definition handleRoleplayResponse ::
  "bool \<Rightarrow> roleplay_result \<Rightarrow> speaking_state \<Rightarrow> (js_error + unit) \<times> speaking_state" where
  "handleRoleplayResponse panel result s =
     (let s1 = addMessage (user_message result) False s
      in case showFeedback panel panel panel (r_analysis result) of
           Inl e \<Rightarrow> (Inl e, s1)
         | Inr _ \<Rightarrow>
             let s2 = (if \<not> is_complete result \<and> ai_message result \<noteq> None
                          \<and> ai_message result \<noteq> Some []
                       then s1\<lparr>scheduledMessages := scheduledMessages s1 @ [ai_message result]\<rparr>
                       else s1)
             in if is_complete result then showSessionComplete result s2 else (Inr (), s2))"

definition sendTextResponse ::
  "bool \<Rightarrow> string \<Rightarrow> roleplay_result http_reply \<Rightarrow> speaking_state \<Rightarrow> speaking_state" where
  "sendTextResponse panel input reply s =
     (let text = trim input
      in if text = [] then s\<lparr>toasts := toasts s @ [''Please enter a message'']\<rparr>
         else case roleplayRespond reply of
                Inl e \<Rightarrow> s\<lparr>toasts := toasts s @ [''Failed to send message'']\<rparr>
              | Inr result \<Rightarrow>
                  (case handleRoleplayResponse panel result s of
                     (Inl e, s1) \<Rightarrow> s1\<lparr>toasts := toasts s1 @ [''Failed to send message'']\<rparr>
                   | (Inr _, s1) \<Rightarrow> s1))"

text \<open>
  \<open>handleFreeTalkResponse(result)\<close>. \<open>ui\<close> tells whether \<open>showFreeTalkUI\<close> has rendered
  the free-talk interface; its template holds \<open>message-count\<close>, \<open>session-avg\<close> and the
  feedback panel with \<open>score-display\<close>, but no \<open>feedback-text\<close>. Without the interface
  the write to \<open>message-count\<close> throws before the average is computed.
\<close>

definition handleFreeTalkResponse ::
  "bool \<Rightarrow> freetalk_result \<Rightarrow> speaking_state \<Rightarrow> (js_error + unit) \<times> speaking_state" where
  "handleFreeTalkResponse ui result s =
     (let s1 = addMessage (ft_user_message result) False s;
          s2 = s1\<lparr>scheduledMessages := scheduledMessages s1 @ [ft_ai_message result]\<rparr>
      in if \<not> ui then (Inl TypeError, s2)
         else case session_averages result of
           None \<Rightarrow> (Inl TypeError, s2)
         | Some m \<Rightarrow>
             let avg = Math_round (js_div3 (js_add (js_add (fluency m) (grammar m)) (vocabulary m)));
                 s3 = s2\<lparr>sessionAvg := Some avg\<rparr>
             in (showFeedback True True False (current_analysis result), s3))"

definition speaking_init :: speaking_state where
  "speaking_init =
     \<lparr>conversationHistory = [], scheduledMessages = [], toasts = [],
      resultScore = None, sessionAvg = None\<rparr>"

subsection \<open>The rounded mean as the specification words it\<close>

definition arithmetic_mean3 :: "rat \<Rightarrow> rat \<Rightarrow> rat \<Rightarrow> rat" where
  "arithmetic_mean3 f g v = (f + g + v) / 3"

section \<open>API client\<close>

text \<open>\<open>localStorage\<close> is a map from keys to strings; the client keeps the auth token
  under \<open>token\<close> and the cached user under \<open>user\<close>.\<close>

type_synonym storage = "string \<rightharpoonup> string"

definition getToken :: "storage \<Rightarrow> string option" where
  "getToken st = st ''token''"

definition clearToken :: "storage \<Rightarrow> storage" where
  "clearToken st = (st(''token'' := None))(''user'' := None)"

text \<open>\<open>!!this.getToken()\<close>: \<open>null\<close> and the empty string are falsy.\<close>

definition isAuthenticated :: "storage \<Rightarrow> bool" where
  "isAuthenticated st = (case getToken st of None \<Rightarrow> False | Some t \<Rightarrow> t \<noteq> [])"

definition ok :: "nat \<Rightarrow> bool" where
  "ok status = (200 \<le> status \<and> status \<le> 299)"

definition truthy :: "jsval \<Rightarrow> bool" where
  "truthy v =
     (v \<noteq> JNull \<and> v \<noteq> JUndefined \<and> v \<noteq> JBool False \<and> v \<noteq> JNum ''0'' \<and> v \<noteq> JNum ''NaN''
      \<and> v \<noteq> JStr [])"

text \<open>\<open>data.detail\<close>: a \<open>TypeError\<close> on \<open>null\<close>, the property of an object if it has
  it, \<open>undefined\<close> otherwise.\<close>

definition get_detail :: "jsval \<Rightarrow> js_error + jsval" where
  "get_detail data =
     (case data of
        JNull \<Rightarrow> Inl TypeError
      | JUndefined \<Rightarrow> Inl TypeError
      | JObj kvs \<Rightarrow> (case map_of kvs ''detail'' of Some v \<Rightarrow> Inr v | None \<Rightarrow> Inr JUndefined)
      | _ \<Rightarrow> Inr JUndefined)"

text \<open>\<open>APIClient.request\<close>: the result of the returned promise and the storage
  afterwards. The \<open>catch\<close> block logs and rethrows. \<open>new Error(message)\<close> converts its
  message to text, which can throw in its turn.\<close>

definition request :: "storage \<Rightarrow> jsval http_reply \<Rightarrow> (js_error + jsval) \<times> storage" where
  "request st reply =
     (case reply of
        NoResponse \<Rightarrow> (Inl NetworkError, st)
      | Response status body \<Rightarrow>
          if status = 401 then (Inl (Error ''Unauthorized''), clearToken st)
          else (case body of
                  None \<Rightarrow> (Inl SyntaxError, st)
                | Some data \<Rightarrow>
                    (if \<not> ok status
                     then (case get_detail data of
                             Inl e \<Rightarrow> (Inl e, st)
                           | Inr d \<Rightarrow>
                               (case (if truthy d then String_js d else Inr ''Request failed'') of
                                  Inl e \<Rightarrow> (Inl e, st)
                                | Inr message \<Rightarrow> (Inl (Error message), st)))
                     else (Inr data, st))))"

section \<open>CEFR levels\<close>

datatype cefr = A1 | A2 | B1 | B2 | C1 | C2

record level_info =
  min_xp :: int
  max_xp :: int
  next_level :: string

text \<open>\<open>levelThresholds\<close> of the dashboard module.\<close>

fun levelThresholds :: "cefr \<Rightarrow> level_info" where
  "levelThresholds A1 = \<lparr>min_xp = 0, max_xp = 500, next_level = ''A2''\<rparr>"
| "levelThresholds A2 = \<lparr>min_xp = 500, max_xp = 1500, next_level = ''B1''\<rparr>"
| "levelThresholds B1 = \<lparr>min_xp = 1500, max_xp = 3500, next_level = ''B2''\<rparr>"
| "levelThresholds B2 = \<lparr>min_xp = 3500, max_xp = 7000, next_level = ''C1''\<rparr>"
| "levelThresholds C1 = \<lparr>min_xp = 7000, max_xp = 12000, next_level = ''C2''\<rparr>"
| "levelThresholds C2 = \<lparr>min_xp = 12000, max_xp = 20000, next_level = ''Max''\<rparr>"

definition levels :: "cefr list" where
  "levels = [A1, A2, B1, B2, C1, C2]"

text \<open>The position of a level in the ascending order; an unset level is below \<open>A1\<close>.\<close>

fun rank :: "cefr option \<Rightarrow> nat" where
  "rank None = 0"
| "rank (Some A1) = 1"
| "rank (Some A2) = 2"
| "rank (Some B1) = 3"
| "rank (Some B2) = 4"
| "rank (Some C1) = 5"
| "rank (Some C2) = 6"

record learner =
  xp_total :: int
  current_streak :: int
  cefr_level :: "cefr option"

record lesson_result =
  xp_earned :: int
  new_streak :: int
  level_up :: bool
  new_level :: "cefr option"

text \<open>The end of \<open>showResults\<close>: the cached user is updated from the lesson result.\<close>

definition showResults :: "lesson_result \<Rightarrow> learner \<Rightarrow> learner" where
  "showResults result user =
     (let u1 = user\<lparr>xp_total := xp_total user + xp_earned result\<rparr>;
          u2 = u1\<lparr>current_streak := new_streak result\<rparr>
      in if level_up result then u2\<lparr>cefr_level := new_level result\<rparr> else u2)"

text \<open>
  Modelled from the spec: the scoring engine that decides \<open>level_up\<close> and \<open>new_level\<close>
  runs on the server and is not among the sources. Step 5 of its algorithm: the new XP
  total is the prior total plus the XP earned; the level whose threshold range contains
  the new total is looked up in the table; if it is strictly higher than the prior level,
  \<open>level_up\<close> is set and \<open>new_level\<close> is that level.
\<close>

definition level_for_xp :: "int \<Rightarrow> cefr option" where
  "level_for_xp xp =
     find (\<lambda>l. min_xp (levelThresholds l) \<le> xp \<and> xp < max_xp (levelThresholds l)) levels"

definition score_level :: "learner \<Rightarrow> int \<Rightarrow> int \<Rightarrow> lesson_result" where
  "score_level prior earned streak =
     (let total = xp_total prior + earned;
          looked_up = level_for_xp total
      in if rank looked_up > rank (cefr_level prior)
         then \<lparr>xp_earned = earned, new_streak = streak, level_up = True, new_level = looked_up\<rparr>
         else \<lparr>xp_earned = earned, new_streak = streak, level_up = False, new_level = None\<rparr>)"

text \<open>One scoring event: the engine scores against the learner's prior snapshot and the
  page applies the result. An event is the XP earned and the new streak value.\<close>

definition scoring_event :: "learner \<Rightarrow> int \<times> int \<Rightarrow> learner" where
  "scoring_event user ev = showResults (score_level user (fst ev) (snd ev)) user"

definition scoring_events :: "(int \<times> int) list \<Rightarrow> learner \<Rightarrow> learner" where
  "scoring_events evs user = foldl scoring_event user evs"

section \<open>Invariants\<close>

text \<open>
  The answer records of a lesson session are balanced when their number is the cursor
  plus the number of scheduled advances. Two things upset a session: an event handler
  that ends in an exception (\<open>raises\<close>), and a timer expiry that arrives while an advance
  is still pending (\<open>expiry_during_delay\<close>). \<open>never bad parse evs s\<close> says that no event
  of the run \<open>evs\<close> from \<open>s\<close> is \<open>bad\<close> in the state it meets. \<open>steady\<close> is the
  invariant of the runs that meet neither, \<open>timer_inv\<close> that of a Timer started once.
\<close>

definition balanced :: "lesson_state \<Rightarrow> bool" where
  "balanced s = (length (answers s) = currentIndex s + pendingAdvance s)"

definition raises ::
  "(string \<Rightarrow> js_error + jsval) \<Rightarrow> lesson_event \<Rightarrow> lesson_state \<Rightarrow> bool" where
  "raises parse e s = (uncaught (lesson_exec parse e s) \<noteq> uncaught s)"

fun expiry_during_delay :: "lesson_event \<Rightarrow> lesson_state \<Rightarrow> bool" where
  "expiry_during_delay (Fire h now) s =
     (h \<in> active (intervals s) \<and> 0 < pendingAdvance s
      \<and> (case lessonTimer s of Some t \<Rightarrow> remaining t \<le> 1 | None \<Rightarrow> False))"
| "expiry_during_delay e s = False"

fun never ::
  "(lesson_event \<Rightarrow> lesson_state \<Rightarrow> bool) \<Rightarrow> (string \<Rightarrow> js_error + jsval)
     \<Rightarrow> lesson_event list \<Rightarrow> lesson_state \<Rightarrow> bool" where
  "never bad parse [] s = True"
| "never bad parse (e # es) s = (\<not> bad e s \<and> never bad parse es (lesson_exec parse e s))"

definition steady :: "lesson_state \<Rightarrow> bool" where
  "steady s =
     (pendingAdvance s \<le> 1
      \<and> (optionsEnabled s \<longrightarrow> pendingAdvance s = 0)
      \<and> length (answers s) = currentIndex s + pendingAdvance s
      \<and> length (answers s) \<le> length (currentQuestions s))"


section \<open>Verification\<close>

subsection \<open>Text normalisation\<close>





lemma decodeCorrectAnswer_spec: "decodeCorrectAnswer parse c = Inr (spec_decode parse c)"
  by (simp add: decodeCorrectAnswer_def spec_decode_def try_catch_def
      split: jsval.splits sum.splits)

text \<open>The check, step by step: the answer is converted first, then the decoded correct
  answer; the first conversion that throws ends the check.\<close>

lemma checkAnswer_steps:
  "checkAnswer parse answer stored =
     (case String_js answer of
        Inl e \<Rightarrow> Inl e
      | Inr s \<Rightarrow>
          (case String_js (spec_decode parse stored) of
             Inl e \<Rightarrow> Inl e
           | Inr t \<Rightarrow> Inr (trim (toLowerCase s) = trim (toLowerCase t))))"
  by (simp add: checkAnswer_def bind_js_def decodeCorrectAnswer_spec split: sum.splits)

lemma checkAnswer_raises_iff:
  "(\<exists>e. checkAnswer parse answer stored = Inl e) \<longleftrightarrow>
     spec_canonical answer = None \<or> spec_canonical (spec_decode parse stored) = None"
  by (auto simp: checkAnswer_steps spec_canonical_def split: sum.splits)

text \<open>When decoding fails, the raw text is compared.\<close>

lemma decode_failure_falls_back:
  assumes "parse raw = Inl e" and "String_js answer = Inr text"
  shows "checkAnswer parse answer (JStr raw) = Inr (trim (toLowerCase text) = trim (toLowerCase raw))"
  using assms by (simp add: checkAnswer_steps spec_decode_def)



subsection \<open>The lesson session\<close>

lemma handleAnswer_records:
  assumes "currentIndex s < length (currentQuestions s)"
  shows "answers (handleAnswer parse a now s) =
           answers s @ [\<lparr>question_id = q_id (currentQuestions s ! currentIndex s),
             user_answer = a, time_taken_ms = now - startTime s,
             question_text = text_of (currentQuestions s ! currentIndex s),
             a_correct_answer = correct_answer (currentQuestions s ! currentIndex s),
             a_options = q_options (currentQuestions s ! currentIndex s)\<rparr>]"
    and "currentIndex (handleAnswer parse a now s) = currentIndex s"
  using assms by (auto simp: handleAnswer_def Let_def split: sum.splits)

lemma handleAnswer_schedules:
  assumes "currentIndex s < length (currentQuestions s)"
    and "checkAnswer parse a (correct_answer (currentQuestions s ! currentIndex s)) = Inr verdict"
  shows "pendingAdvance (handleAnswer parse a now s) = Suc (pendingAdvance s)"
    and "shownResults (handleAnswer parse a now s) = shownResults s @ [verdict]"
    and "uncaught (handleAnswer parse a now s) = uncaught s"
  using assms by (auto simp: handleAnswer_def Let_def)

text \<open>An expired per-question timer submits \<open>null\<close>; when the check gives a verdict, the
  next scheduled callback moves the cursor on.\<close>

lemma expiry_submits_null:
  assumes "lessonTimer s = Some t" and "interval t = Some h" and "h \<in> active (intervals s)"
    and "remaining t \<le> 1" and "perQuestion s"
    and "currentIndex s < length (currentQuestions s)"
  shows "user_answer (last (answers (lesson_exec parse (Fire h now) s))) = JNull"
    and "length (answers (lesson_exec parse (Fire h now) s)) = Suc (length (answers s))"
    and "checkAnswer parse JNull (correct_answer (currentQuestions s ! currentIndex s)) = Inr verdict
         \<Longrightarrow> currentIndex (lesson_exec parse Timeout (lesson_exec parse (Fire h now) s))
               = Suc (currentIndex s)"
proof -
  let ?s1 = "s\<lparr>lessonTimer := Some (t\<lparr>remaining := remaining t - 1, interval := None\<rparr>),
               intervals := (intervals s)\<lparr>active := active (intervals s) - {h}\<rparr>\<rparr>"
  have fire: "lesson_exec parse (Fire h now) s = handleAnswer parse JNull now ?s1"
    using assms(1-5) by (simp add: Timer_tick_def Timer_stop_def onComplete_def Let_def)
  have cur: "currentIndex ?s1 < length (currentQuestions ?s1)" using assms(6) by simp
  show "user_answer (last (answers (lesson_exec parse (Fire h now) s))) = JNull"
    unfolding fire by (simp add: handleAnswer_records(1) [OF cur])
  show "length (answers (lesson_exec parse (Fire h now) s)) = Suc (length (answers s))"
    unfolding fire by (simp add: handleAnswer_records(1) [OF cur])
  assume v: "checkAnswer parse JNull (correct_answer (currentQuestions s ! currentIndex s)) = Inr verdict"
  then have v1: "checkAnswer parse JNull (correct_answer (currentQuestions ?s1 ! currentIndex ?s1)) = Inr verdict"
    by simp
  have "pendingAdvance (handleAnswer parse JNull now ?s1) = Suc (pendingAdvance s)"
    using handleAnswer_schedules(1) [OF cur v1] by simp
  moreover have "currentIndex (handleAnswer parse JNull now ?s1) = currentIndex s"
    using handleAnswer_records(2) [OF cur] by simp
  ultimately show "currentIndex (lesson_exec parse Timeout (lesson_exec parse (Fire h now) s))
           = Suc (currentIndex s)"
    unfolding fire
    by (simp add: advance_def Let_def renderCurrentQuestion_def submitLesson_def
        split: option.splits prod.splits)
qed

text \<open>
  C2. When the per-question timer of a sprint expires before the learner submits, a
  record with the answer \<open>null\<close> is appended and the cursor advances, but the answer is
  not always scored incorrect: \<open>String(null)\<close> is the text \<open>null\<close>, which equals the
  canonical text of a correct answer such as \<open>"null"\<close>. Here a grammar sprint of one
  question with that correct answer and the default twenty seconds runs out.
\<close>

theorem timed_out_answer_scored_correct:
  "shownResults
     (lesson_run parse_literal (replicate 20 (Fire 1 21000))
        (snd (initLesson True True ''grammar-sprint''
                (Inr \<lparr>questions = Some [null_question], time_per_question = None\<rparr>)
                1000 module_init))) = [True]
   \<and> map user_answer
      (answers
        (lesson_run parse_literal (replicate 20 (Fire 1 21000))
          (snd (initLesson True True ''grammar-sprint''
                  (Inr \<lparr>questions = Some [null_question], time_per_question = None\<rparr>)
                  1000 module_init)))) = [JNull]"
  by code_simp

text \<open>
  C3. An attempt to start a lesson whose question sequence is empty does not fail with an
  error: \<open>initLesson\<close> takes its "No Questions Available" path and returns normally.
\<close>

theorem initLesson_empty_counterexample:
  "fst (initLesson True True ''daily'' (Inr \<lparr>questions = Some [], time_per_question = None\<rparr>)
          1000 module_init) = NoQuestions
   \<and> fst (initLesson True True ''daily'' (Inr \<lparr>questions = Some [], time_per_question = None\<rparr>)
          1000 module_init) \<noteq> LoadFailed (Error ''InvalidSession'')"
  by (simp add: initLesson_def)

text \<open>
  C3, amended. For every attempt to start a lesson whose question sequence is empty or
  absent, on a page with the lesson container, \<open>initLesson\<close> raises no error: it returns
  on its "No Questions Available" path with no questions, cursor 0 and no answer records,
  starts no timer and renders no question, and every later answer is ignored.
\<close>

theorem initLesson_empty_shows_no_questions:
  assumes "questions payload = None \<or> questions payload = Some []"
  shows "initLesson True timerEl ty (Inr payload) now s =
           (NoQuestions, s\<lparr>currentQuestions := [], currentIndex := 0, answers := [],
                            startTime := now, currentLessonType := Some ty\<rparr>)
         \<and> handleAnswer parse a t (snd (initLesson True timerEl ty (Inr payload) now s))
             = snd (initLesson True timerEl ty (Inr payload) now s)"
  using assms by (auto simp: initLesson_def handleAnswer_def)

theorem initLesson_empty_shows_no_questions_witness:
  "initLesson True True ''word-sprint'' (Inr \<lparr>questions = Some [], time_per_question = Some 30\<rparr>)
      1000 module_init =
     (NoQuestions, module_init\<lparr>currentQuestions := [], currentIndex := 0, answers := [],
                    startTime := 1000, currentLessonType := Some ''word-sprint''\<rparr>)"
  using initLesson_empty_shows_no_questions
    [of "\<lparr>questions = Some [], time_per_question = Some 30\<rparr>" True "''word-sprint''" 1000
        module_init parse_literal JNull 0]
  by simp

subsection \<open>Cursor and answer records\<close>

lemma handleAnswer_balanced:
  "balanced s \<Longrightarrow> uncaught (handleAnswer parse a now s) = uncaught s
   \<Longrightarrow> balanced (handleAnswer parse a now s)"
  by (auto simp: balanced_def handleAnswer_def Let_def split: sum.splits if_splits)

lemma submitLesson_balanced: "balanced s \<Longrightarrow> balanced (submitLesson s)"
  by (simp add: balanced_def submitLesson_def Let_def split: option.splits prod.splits)

lemma submitLesson_uncaught: "uncaught (submitLesson s) = uncaught s"
  by (simp add: submitLesson_def Let_def split: option.splits prod.splits)

lemma onComplete_balanced:
  "balanced s \<Longrightarrow> uncaught (onComplete parse now s) = uncaught s
   \<Longrightarrow> balanced (onComplete parse now s)"
  by (simp add: onComplete_def handleAnswer_balanced submitLesson_balanced split: if_splits)

lemma advance_balanced:
  assumes "balanced s" and "0 < pendingAdvance s"
  shows "balanced (advance (s\<lparr>pendingAdvance := pendingAdvance s - 1\<rparr>))"
  using assms
  by (auto simp: balanced_def advance_def Let_def renderCurrentQuestion_def submitLesson_def
      split: option.splits prod.splits)

lemma lesson_exec_balanced:
  assumes b: "balanced s" and quiet: "\<not> raises parse e s"
  shows "balanced (lesson_exec parse e s)"
proof (cases e)
  case (Click opt now)
  show ?thesis
  proof (cases "optionsEnabled s")
    case True
    have "uncaught (handleAnswer parse (JStr opt) now s) = uncaught s"
      using quiet Click True by (simp add: raises_def)
    from handleAnswer_balanced [OF b this] True Click show ?thesis by simp
  next
    case False
    then show ?thesis using b Click by simp
  qed
next
  case (Fire h now)
  show ?thesis
  proof (cases "h \<in> active (intervals s)")
    case False
    then show ?thesis using Fire b by simp
  next
    case True
    show ?thesis
    proof (cases "lessonTimer s")
      case None
      then show ?thesis using Fire b by simp
    next
      case (Some t)
      obtain t1 r1 d where tick: "Timer_tick t (intervals s) = (t1, r1, d)"
        by (cases "Timer_tick t (intervals s)") auto
      let ?s1 = "s\<lparr>lessonTimer := Some t1, intervals := r1\<rparr>"
      have b1: "balanced ?s1" using b by (simp add: balanced_def)
      show ?thesis
      proof (cases d)
        case False
        then show ?thesis using Fire True Some tick b1 by (simp add: Let_def)
      next
        case d: True
        have ex: "lesson_exec parse e s = onComplete parse now ?s1"
          using Fire True Some tick d by (simp add: Let_def)
        have "uncaught (onComplete parse now ?s1) = uncaught ?s1"
          using quiet ex by (simp add: raises_def)
        then show ?thesis unfolding ex by (rule onComplete_balanced [OF b1])
      qed
    qed
  qed
next
  case Timeout
  show ?thesis
  proof (cases "0 < pendingAdvance s")
    case True
    from advance_balanced [OF b True] True Timeout show ?thesis by simp
  next
    case False
    then show ?thesis using b Timeout by simp
  qed
qed

lemma lesson_run_balanced:
  "balanced s \<Longrightarrow> never (raises parse) parse evs s \<Longrightarrow> balanced (lesson_run parse evs s)"
  unfolding lesson_run_def
  by (induction evs arbitrary: s) (simp_all add: lesson_exec_balanced)

lemma initLesson_balanced:
  "balanced (snd (initLesson container timerEl ty loaded now module_init))"
  by (simp add: initLesson_def balanced_def module_init_def Let_def renderCurrentQuestion_def
      submitLesson_def setupTimer_def Timer_start_def Timer_stop_def
      split: sum.splits option.splits)

lemma handleAnswer_steady:
  "steady s \<Longrightarrow> pendingAdvance s = 0 \<Longrightarrow> uncaught (handleAnswer parse a now s) = uncaught s
   \<Longrightarrow> steady (handleAnswer parse a now s)"
  by (auto simp: steady_def handleAnswer_def Let_def split: sum.splits if_splits)

lemma submitLesson_steady: "steady s \<Longrightarrow> steady (submitLesson s)"
  by (simp add: steady_def submitLesson_def Let_def split: option.splits prod.splits)

lemma onComplete_steady:
  "steady s \<Longrightarrow> pendingAdvance s = 0 \<Longrightarrow> uncaught (onComplete parse now s) = uncaught s
   \<Longrightarrow> steady (onComplete parse now s)"
  by (simp add: onComplete_def handleAnswer_steady submitLesson_steady split: if_splits)

lemma advance_steady:
  "steady s \<Longrightarrow> pendingAdvance s = 1 \<Longrightarrow> steady (advance (s\<lparr>pendingAdvance := 0\<rparr>))"
  by (auto simp: steady_def advance_def Let_def renderCurrentQuestion_def submitLesson_def
      Timer_reset_def Timer_stop_def Timer_start_def split: option.splits prod.splits)

lemma lesson_exec_steady:
  assumes st: "steady s" and quiet: "\<not> raises parse e s" and calm: "\<not> expiry_during_delay e s"
  shows "steady (lesson_exec parse e s)"
proof (cases e)
  case (Click opt now)
  show ?thesis
  proof (cases "optionsEnabled s")
    case True
    with st have p0: "pendingAdvance s = 0" by (simp add: steady_def)
    have "uncaught (handleAnswer parse (JStr opt) now s) = uncaught s"
      using quiet Click True by (simp add: raises_def)
    from handleAnswer_steady [OF st p0 this] True Click show ?thesis by simp
  next
    case False
    then show ?thesis using st Click by simp
  qed
next
  case (Fire h now)
  show ?thesis
  proof (cases "h \<in> active (intervals s)")
    case False
    then show ?thesis using Fire st by simp
  next
    case True
    show ?thesis
    proof (cases "lessonTimer s")
      case None
      then show ?thesis using Fire st by simp
    next
      case (Some t)
      obtain t1 r1 d where tick: "Timer_tick t (intervals s) = (t1, r1, d)"
        by (cases "Timer_tick t (intervals s)") auto
      let ?s1 = "s\<lparr>lessonTimer := Some t1, intervals := r1\<rparr>"
      have st1: "steady ?s1" using st by (simp add: steady_def)
      show ?thesis
      proof (cases d)
        case False
        then show ?thesis using Fire True Some tick st1 by (simp add: Let_def)
      next
        case d: True
        have "remaining t \<le> 1"
          using tick d by (auto simp: Timer_tick_def Let_def split: if_splits prod.splits)
        with calm Fire True Some have p0: "pendingAdvance ?s1 = 0" by simp
        have ex: "lesson_exec parse e s = onComplete parse now ?s1"
          using Fire True Some tick d by (simp add: Let_def)
        have "uncaught (onComplete parse now ?s1) = uncaught ?s1"
          using quiet ex by (simp add: raises_def)
        then show ?thesis unfolding ex by (rule onComplete_steady [OF st1 p0])
      qed
    qed
  qed
next
  case Timeout
  show ?thesis
  proof (cases "0 < pendingAdvance s")
    case True
    with st have one: "pendingAdvance s = 1" by (simp add: steady_def)
    from advance_steady [OF st one] one Timeout show ?thesis by simp
  next
    case False
    then show ?thesis using st Timeout by simp
  qed
qed

lemma lesson_run_steady:
  "steady s \<Longrightarrow> never (raises parse) parse evs s \<Longrightarrow> never expiry_during_delay parse evs s
   \<Longrightarrow> steady (lesson_run parse evs s)"
  unfolding lesson_run_def
  by (induction evs arbitrary: s) (simp_all add: lesson_exec_steady)

lemma initLesson_steady:
  "steady (snd (initLesson container timerEl ty loaded now module_init))"
  by (auto simp: initLesson_def steady_def module_init_def Let_def
      renderCurrentQuestion_def submitLesson_def setupTimer_def Timer_start_def
      split: sum.splits if_splits)

text \<open>
  C4. The cursor does not equal the number of answer records at all times:
  \<open>handleAnswer\<close> appends the record at once and moves the cursor one second later, in a
  \<open>setTimeout\<close> callback. After the first click of a daily lesson there is one record and
  the cursor is still 0.
\<close>

theorem cursor_lags_records_counterexample:
  "currentIndex
     (lesson_run parse_literal [Click ''quick'' 4000]
        (snd (initLesson True True ''daily''
                (Inr \<lparr>questions = Some [fast_question, null_question], time_per_question = None\<rparr>)
                1000 module_init)))
   \<noteq> length (answers
     (lesson_run parse_literal [Click ''quick'' 4000]
        (snd (initLesson True True ''daily''
                (Inr \<lparr>questions = Some [fast_question, null_question], time_per_question = None\<rparr>)
                1000 module_init))))"
  by code_simp

text \<open>
  C4, amended. \<open>handleAnswer\<close> appends the record at once and moves the cursor in a
  \<open>setTimeout\<close> callback one second later. At every point of every lesson session that is
  reached without an event handler ending in an exception, the number of answer records
  equals the cursor plus the number of scheduled advances that have not run yet. If, in
  addition, no timer expiry has arrived while an advance was pending, at most one advance
  is pending and the number of answer records never exceeds the number of questions; so
  the cursor equals the number of records whenever no advance is pending.
\<close>

theorem records_equal_cursor_plus_pending:
  assumes "never (raises parse) parse evs (snd (initLesson container timerEl ty loaded now module_init))"
  shows
  "length (answers (lesson_run parse evs (snd (initLesson container timerEl ty loaded now module_init))))
     = currentIndex (lesson_run parse evs (snd (initLesson container timerEl ty loaded now module_init)))
       + pendingAdvance (lesson_run parse evs (snd (initLesson container timerEl ty loaded now module_init)))
   \<and> (never expiry_during_delay parse evs (snd (initLesson container timerEl ty loaded now module_init))
        \<longrightarrow>
        pendingAdvance (lesson_run parse evs (snd (initLesson container timerEl ty loaded now module_init))) \<le> 1
        \<and> length (answers (lesson_run parse evs (snd (initLesson container timerEl ty loaded now module_init))))
            \<le> length (currentQuestions
                 (lesson_run parse evs (snd (initLesson container timerEl ty loaded now module_init)))))"
proof -
  let ?s0 = "snd (initLesson container timerEl ty loaded now module_init)"
  have "balanced (lesson_run parse evs ?s0)"
    by (rule lesson_run_balanced [OF initLesson_balanced assms])
  moreover have "never expiry_during_delay parse evs ?s0 \<Longrightarrow> steady (lesson_run parse evs ?s0)"
    by (rule lesson_run_steady [OF initLesson_steady assms])
  ultimately show ?thesis by (auto simp: balanced_def steady_def)
qed

text \<open>A word sprint of two questions with two seconds each: the learner answers the
  first question, lets the second one run out, and both advances run.\<close>

theorem records_equal_cursor_plus_pending_witness:
  "never (raises parse_literal) parse_literal
     [Fire 1 2000, Click ''quick'' 2500, Timeout, Fire 2 4500, Fire 2 5500, Timeout]
     (snd (initLesson True True ''word-sprint''
        (Inr \<lparr>questions = Some [fast_question, null_question], time_per_question = Some 2\<rparr>)
        1000 module_init))
   \<and> never expiry_during_delay parse_literal
     [Fire 1 2000, Click ''quick'' 2500, Timeout, Fire 2 4500, Fire 2 5500, Timeout]
     (snd (initLesson True True ''word-sprint''
        (Inr \<lparr>questions = Some [fast_question, null_question], time_per_question = Some 2\<rparr>)
        1000 module_init))
   \<and> map user_answer (answers (lesson_run parse_literal
     [Fire 1 2000, Click ''quick'' 2500, Timeout, Fire 2 4500, Fire 2 5500, Timeout]
     (snd (initLesson True True ''word-sprint''
        (Inr \<lparr>questions = Some [fast_question, null_question], time_per_question = Some 2\<rparr>)
        1000 module_init)))) = [JStr ''quick'', JNull]
   \<and> length (answers (lesson_run parse_literal
     [Fire 1 2000, Click ''quick'' 2500, Timeout, Fire 2 4500, Fire 2 5500, Timeout]
     (snd (initLesson True True ''word-sprint''
        (Inr \<lparr>questions = Some [fast_question, null_question], time_per_question = Some 2\<rparr>)
        1000 module_init))))
     \<le> length (currentQuestions (lesson_run parse_literal
     [Fire 1 2000, Click ''quick'' 2500, Timeout, Fire 2 4500, Fire 2 5500, Timeout]
     (snd (initLesson True True ''word-sprint''
        (Inr \<lparr>questions = Some [fast_question, null_question], time_per_question = Some 2\<rparr>)
        1000 module_init))))"
proof -
  let ?evs = "[Fire 1 2000, Click ''quick'' 2500, Timeout, Fire 2 4500, Fire 2 5500, Timeout]"
  let ?s0 = "snd (initLesson True True ''word-sprint''
        (Inr \<lparr>questions = Some [fast_question, null_question], time_per_question = Some 2\<rparr>)
        1000 module_init)"
  have quiet: "never (raises parse_literal) parse_literal ?evs ?s0" by code_simp
  have calm: "never expiry_during_delay parse_literal ?evs ?s0" by code_simp
  have recs: "map user_answer (answers (lesson_run parse_literal ?evs ?s0)) = [JStr ''quick'', JNull]"
    by code_simp
  from quiet calm recs show ?thesis
    using records_equal_cursor_plus_pending
      [of parse_literal ?evs True True "''word-sprint''"
          "Inr \<lparr>questions = Some [fast_question, null_question], time_per_question = Some 2\<rparr>" 1000]
    by simp
qed

text \<open>
  In a sprint the lesson timer keeps running during the one-second delay. A learner who
  answers in the last second of the countdown is followed by the expiry: a second record
  is appended for the same question, and both scheduled advances run. With one question
  and two seconds per question this leaves two records, the cursor at 2 and two
  submissions.
\<close>

lemma sprint_race_two_records:
  "map user_answer (answers
     (lesson_run parse_literal [Fire 1 2000, Click ''quick'' 2500, Fire 1 3000, Timeout, Timeout]
        (snd (initLesson True True ''word-sprint''
                (Inr \<lparr>questions = Some [fast_question], time_per_question = Some 2\<rparr>)
                1000 module_init)))) = [JStr ''quick'', JNull]
   \<and> currentIndex
     (lesson_run parse_literal [Fire 1 2000, Click ''quick'' 2500, Fire 1 3000, Timeout, Timeout]
        (snd (initLesson True True ''word-sprint''
                (Inr \<lparr>questions = Some [fast_question], time_per_question = Some 2\<rparr>)
                1000 module_init))) = 2
   \<and> length (submissions
     (lesson_run parse_literal [Fire 1 2000, Click ''quick'' 2500, Fire 1 3000, Timeout, Timeout]
        (snd (initLesson True True ''word-sprint''
                (Inr \<lparr>questions = Some [fast_question], time_per_question = Some 2\<rparr>)
                1000 module_init)))) = 2"
  by code_simp

subsection \<open>Timer\<close>







text \<open>The countdown does complete: a timer of \<open>n\<close> seconds that is left alone invokes
  the completion callback at its \<open>n\<close>-th tick.\<close>

lemma countdown_completes:
  assumes "interval (tm s) = Some h" and "active (reg s) = {h}"
    and "remaining (tm s) = int n" and "0 < n"
  shows "completions (timer_run (replicate n (TFire h)) s) = Suc (completions s)"
  using assms
proof (induction n arbitrary: s)
  case 0
  then show ?case by simp
next
  case (Suc n)
  show ?case
  proof (cases "n = 0")
    case True
    with Suc.prems show ?thesis
      by (simp add: timer_run_def fire_sys_def Timer_tick_def Timer_stop_def)
  next
    case False
    let ?s1 = "fire_sys h s"
    from Suc.prems False
    have step: "interval (tm ?s1) = Some h" "active (reg ?s1) = {h}"
      "remaining (tm ?s1) = int n" "completions ?s1 = completions s"
      by (simp_all add: fire_sys_def Timer_tick_def)
    from Suc.IH [OF step(1,2,3)] False step(4) show ?thesis
      by (simp add: timer_run_def)
  qed
qed



subsection \<open>The answer check can raise\<close>

text \<open>
  C6. The \<open>try\<close> of \<open>handleAnswer\<close> covers \<open>JSON.parse\<close> only, and a decode failure
  does fall back to the raw text (\<open>decode_failure_falls_back\<close>). The conversion
  \<open>String(correctAnswer)\<close> is outside the \<open>try\<close>: for a correct answer that is an object
  with a member named \<open>toString\<close> it throws a \<open>TypeError\<close>. The record has been appended by
  then and the advance is never scheduled, so the session stays on that question. Here
  the first question of a daily lesson has such a correct answer.
\<close>

theorem answer_check_raises:
  "checkAnswer parse_literal (JStr ''to text'') (correct_answer method_question) = Inl TypeError
   \<and> uncaught
     (lesson_run parse_literal [Click ''to text'' 4000, Timeout]
        (snd (initLesson True True ''daily''
                (Inr \<lparr>questions = Some [method_question, fast_question], time_per_question = None\<rparr>)
                1000 module_init))) = [TypeError]
   \<and> length (answers
     (lesson_run parse_literal [Click ''to text'' 4000, Timeout]
        (snd (initLesson True True ''daily''
                (Inr \<lparr>questions = Some [method_question, fast_question], time_per_question = None\<rparr>)
                1000 module_init)))) = 1
   \<and> currentIndex
     (lesson_run parse_literal [Click ''to text'' 4000, Timeout]
        (snd (initLesson True True ''daily''
                (Inr \<lparr>questions = Some [method_question, fast_question], time_per_question = None\<rparr>)
                1000 module_init))) = 0"
  by code_simp

text \<open>The same happens when the correct answer arrives as JSON text that decodes to
  such an object.\<close>

lemma answer_check_raises_after_decoding:
  assumes "parse raw = Inr (JObj kvs)" and "''toString'' \<in> fst ` set kvs"
    and "String_js answer = Inr text"
  shows "checkAnswer parse answer (JStr raw) = Inl TypeError"
  using assms by (simp add: checkAnswer_steps spec_decode_def)

subsection \<open>Roleplay turns\<close>

text \<open>When the request promise rejects (no response, or a body that is not JSON), no
  turn is recorded and the failure is reported by a toast.\<close>

lemma rejected_request_records_nothing:
  assumes "roleplayRespond reply = Inl e" and "trim input \<noteq> []"
  shows "conversationHistory (sendTextResponse panel input reply s) = conversationHistory s"
    and "scheduledMessages (sendTextResponse panel input reply s) = scheduledMessages s"
    and "toasts (sendTextResponse panel input reply s) = toasts s @ [''Failed to send message'']"
  using assms by (simp_all add: sendTextResponse_def Let_def)

text \<open>
  C7. When the provider request fails on the server, the reply is an error status with a
  JSON body such as \<open>{"detail": "..."}\<close>. \<open>roleplayRespond\<close> does not look at the status
  (as \<open>request\<close> does), so the body is handled as a turn: a user message without text is
  appended to the transcript before \<open>showFeedback\<close> hits the missing analysis. Here the
  reply has status 500.
\<close>

theorem failed_turn_is_recorded:
  "conversationHistory
     (sendTextResponse True ''Hello there''
        (Response 500 (Some \<lparr>user_message = None, ai_message = None, r_analysis = None,
                               is_complete = False, detail = Some ''AI provider unavailable''\<rparr>))
        (speaking_init\<lparr>conversationHistory := [(Some ''Welcome to the cafe!'', True)]\<rparr>))
   = [(Some ''Welcome to the cafe!'', True), (None, False)]"
  by code_simp

subsection \<open>Rounding to doubles\<close>

lemma bitlen_bounds: "0 < n \<Longrightarrow> 2 ^ (bitlen n - 1) \<le> n \<and> n < 2 ^ bitlen n"
proof (induction n rule: bitlen.induct)
  case (1 n)
  show ?case
  proof (cases "n div 2 = 0")
    case True
    with 1 have "n = 1" by presburger
    then show ?thesis by (simp add: bitlen.simps)
  next
    case False
    with 1 have pos: "0 < n div 2" by presburger
    from 1 have "2 ^ (bitlen (n div 2) - 1) \<le> n div 2 \<and> n div 2 < 2 ^ bitlen (n div 2)"
      using pos by simp
    moreover have "0 < bitlen (n div 2)" using pos by (subst bitlen.simps) simp
    moreover have "bitlen n = Suc (bitlen (n div 2))" using 1 by (subst bitlen.simps) simp
    ultimately show ?thesis
      by (cases "bitlen (n div 2)") (auto simp: power_Suc)
  qed
qed

lemma pow2_pos: "0 < pow2 e"
  by (simp add: pow2_def)

lemma pow2_powi: "pow2 e = 2 powi e"
  by (simp add: pow2_def power_int_def power_one_over)

lemma pow2_mono: "a \<le> b \<Longrightarrow> pow2 a \<le> pow2 b"
  unfolding pow2_powi by (simp add: power_int_increasing)

text \<open>From 1 on, \<open>binade\<close> is a lower power of two; below 1 it is not positive.\<close>

lemma binade_ge1:
  assumes "1 \<le> \<bar>x\<bar>"
  shows "0 \<le> binade x" and "pow2 (binade x) \<le> \<bar>x\<bar>"
proof -
  let ?n = "\<lfloor>\<bar>x\<bar>\<rfloor>"
  have n: "0 < ?n" using assms by simp
  have b: "binade x = int (bitlen ?n) - 1" using assms by (simp add: binade_def Let_def)
  have bl: "0 < bitlen ?n" using n by (subst bitlen.simps) simp
  show "0 \<le> binade x" using b bl by simp
  have "nat (binade x) = bitlen ?n - 1" using b bl by simp
  then have "pow2 (binade x) = 2 ^ (bitlen ?n - 1)" using b bl by (simp add: pow2_def)
  also have "\<dots> \<le> of_int ?n"
  proof -
    have "(2::int) ^ (bitlen ?n - 1) \<le> ?n" using bitlen_bounds [OF n] by simp
    then have "of_int ((2::int) ^ (bitlen ?n - 1)) \<le> (of_int ?n :: rat)"
      by (simp only: of_int_le_iff)
    then show ?thesis by simp
  qed
  also have "\<dots> \<le> \<bar>x\<bar>" by simp
  finally show "pow2 (binade x) \<le> \<bar>x\<bar>" .
qed

lemma binade_lt1: "\<bar>x\<bar> < 1 \<Longrightarrow> binade x \<le> 0"
  by (simp add: binade_def Let_def)

lemma round_half_even_int: "round_half_even (of_int m) = m"
  by (simp add: round_half_even_def)

lemma round_half_even_error: "\<bar>of_int (round_half_even q) - q\<bar> \<le> 1 / 2"
proof -
  have "of_int \<lfloor>q\<rfloor> \<le> q" "q < of_int \<lfloor>q\<rfloor> + 1" by linarith+
  then show ?thesis
    by (auto simp: round_half_even_def Let_def abs_le_iff)
qed

text \<open>An integer below \<open>2^53\<close> in magnitude is a double.\<close>



lemma to_double_int:
  assumes "\<bar>n\<bar> < 2 ^ 53"
  shows "to_double (of_int n) = Fin (of_int n)"
proof (cases "n = 0")
  case True
  then show ?thesis by (simp add: to_double_def)
next
  case False
  let ?x = "of_int n :: rat"
  have one: "1 \<le> \<bar>?x\<bar>" using False by (simp flip: of_int_abs)
  have lt: "\<bar>?x\<bar> < 2 ^ 53" 
  proof -
    have "(of_int \<bar>n\<bar> :: rat) < of_int (2 ^ 53)" using assms by (simp only: of_int_less_iff)
    then show ?thesis by simp
  qed
  have e0: "0 \<le> binade ?x" and lo: "pow2 (binade ?x) \<le> \<bar>?x\<bar>"
    using binade_ge1 [OF one] by simp_all
  have e52: "binade ?x \<le> 52"
  proof (rule ccontr)
    assume "\<not> binade ?x \<le> 52"
    then have "53 \<le> binade ?x" by simp
    then have "pow2 53 \<le> pow2 (binade ?x)" by (rule pow2_mono)
    with lo lt show False by (simp add: pow2_def)
  qed
  define k where "k = nat (52 - binade ?x)"
  have emax: "max (binade ?x) (- 1022) = binade ?x" using e0 by simp
  have ulp: "pow2 (binade ?x - 52) = 1 / 2 ^ k"
  proof (cases "binade ?x = 52")
    case True then show ?thesis by (simp add: pow2_def k_def)
  next
    case False
    with e52 have "binade ?x - 52 < 0" by simp
    moreover have "nat (- (binade ?x - 52)) = k" by (simp add: k_def)
    ultimately show ?thesis by (simp add: pow2_def)
  qed
  have q: "?x / (1 / 2 ^ k) = of_int (n * 2 ^ k)" by simp
  have r: "of_int (round_half_even (?x / (1 / 2 ^ k))) * (1 / 2 ^ k) = ?x"
    unfolding q round_half_even_int by simp
  have small: "\<not> pow2 1024 \<le> \<bar>?x\<bar>"
  proof -
    have "(2::rat) ^ 53 \<le> 2 ^ 1024" by (rule power_increasing) simp_all
    with lt show ?thesis by (simp add: pow2_def)
  qed
  have nz: "?x \<noteq> 0" using False by simp
  show ?thesis
    unfolding to_double_def Let_def emax ulp r using nz small by simp
qed

text \<open>Below 128 the nearest double is within \<open>2^(-47)\<close>.\<close>

lemma to_double_near:
  assumes "0 < x" and "x < 128"
  shows "\<exists>y. to_double x = Fin y \<and> \<bar>y - x\<bar> \<le> 1 / 2 ^ 47"
proof -
  have b6: "binade x \<le> 6"
  proof (cases "1 \<le> \<bar>x\<bar>")
    case True
    have lo: "pow2 (binade x) \<le> \<bar>x\<bar>" using binade_ge1 [OF True] by simp
    show ?thesis
    proof (rule ccontr)
      assume "\<not> binade x \<le> 6"
      then have "7 \<le> binade x" by simp
      then have "pow2 7 \<le> pow2 (binade x)" by (rule pow2_mono)
      with lo assms show False by (simp add: pow2_def)
    qed
  next
    case False
    then have "binade x \<le> 0" by (simp add: binade_lt1)
    then show ?thesis by simp
  qed
  define e where "e = max (binade x) (- 1022)"
  define ulp where "ulp = pow2 (e - 52)"
  define r where "r = of_int (round_half_even (x / ulp)) * ulp"
  have "e \<le> 6" using b6 by (simp add: e_def)
  then have "e - 52 \<le> - 46" by simp
  then have "ulp \<le> pow2 (- 46)" unfolding ulp_def by (rule pow2_mono)
  then have ulp46: "ulp \<le> 1 / 2 ^ 46" by (simp add: pow2_def)
  have ulp0: "0 < ulp" by (simp add: ulp_def pow2_pos)
  have "r - x = (of_int (round_half_even (x / ulp)) - x / ulp) * ulp"
    using ulp0 by (simp add: r_def field_simps)
  then have "\<bar>r - x\<bar> = \<bar>of_int (round_half_even (x / ulp)) - x / ulp\<bar> * ulp"
    using ulp0 by (simp add: abs_mult)
  also have "\<dots> \<le> (1 / 2) * ulp"
    using round_half_even_error [of "x / ulp"] ulp0 by (simp add: mult_right_mono)
  also have "\<dots> \<le> (1 / 2) * (1 / 2 ^ 46)" using ulp46 by simp
  finally have err: "\<bar>r - x\<bar> \<le> 1 / 2 ^ 47" by simp
  have "\<bar>r\<bar> \<le> \<bar>x\<bar> + \<bar>r - x\<bar>" by simp
  also have "\<dots> < 128 + 1" using assms err by simp
  also have "\<dots> \<le> pow2 1024"
  proof -
    have "(2::rat) ^ 8 \<le> 2 ^ 1024" by (rule power_increasing) simp_all
    then show ?thesis by (simp add: pow2_def)
  qed
  finally have small: "\<not> pow2 1024 \<le> \<bar>r\<bar>" by simp
  have "to_double x = Fin r"
    using assms small by (simp add: to_double_def Let_def e_def ulp_def r_def)
  with err show ?thesis by blast
qed

lemma third_rounds_right:
  assumes "0 \<le> n" and "n \<le> 300"
  shows "Math_round (js_div3 (Fin (of_int n))) = Fin (of_int (round (of_int n / 3 :: rat)))"
proof (cases "n = 0")
  case True
  have "\<lfloor>(1::rat) / 2\<rfloor> = 0" by linarith
  with True show ?thesis by (simp add: to_double_def round_def)
next
  case False
  let ?x = "of_int n / 3 :: rat"
  have pos: "0 < ?x" using False assms by simp
  have lt: "?x < 128" using assms by simp
  obtain y where y: "to_double ?x = Fin y" and err: "\<bar>y - ?x\<bar> \<le> 1 / 2 ^ 47"
    using to_double_near [OF pos lt] by blast
  define k where "k = \<lfloor>?x + 1 / 2\<rfloor>"
  have k1: "of_int k \<le> ?x + 1 / 2" and k2: "?x + 1 / 2 < of_int k + 1"
    unfolding k_def by linarith+
  have "(of_int (6 * k) :: rat) \<le> of_int (2 * n + 3)" using k1 by (simp add: field_simps)
  then have "6 * k \<le> 2 * n + 3" by (simp only: of_int_le_iff)
  then have i1: "6 * k + 1 \<le> 2 * n + 3" by presburger
  have "(of_int (2 * n + 3) :: rat) < of_int (6 * k + 6)" using k2 by (simp add: field_simps)
  then have "2 * n + 3 < 6 * k + 6" by (simp only: of_int_less_iff)
  then have i2: "2 * n + 3 \<le> 6 * k + 5" by presburger
  have "(of_int (6 * k + 1) :: rat) \<le> of_int (2 * n + 3)" using i1 by (simp only: of_int_le_iff)
  then have lo: "of_int k + 1 / 6 \<le> ?x + 1 / 2" by (simp add: field_simps)
  have "(of_int (2 * n + 3) :: rat) \<le> of_int (6 * k + 5)" using i2 by (simp only: of_int_le_iff)
  then have hi: "?x + 1 / 2 \<le> of_int k + 5 / 6" by (simp add: field_simps)
  have tiny: "(1::rat) / 2 ^ 47 < 1 / 6" by simp
  have err6: "\<bar>y - ?x\<bar> < 1 / 6" using err tiny by linarith
  have "of_int k \<le> y + 1 / 2" "y + 1 / 2 < of_int k + 1"
    using lo hi err6 by linarith+
  then have "\<lfloor>y + 1 / 2\<rfloor> = k" by linarith
  then show ?thesis
    using y by (simp add: k_def round_def)
qed

lemma mean_of_integer_scores:
  assumes "0 \<le> f \<and> f \<le> 100" and "0 \<le> g \<and> g \<le> 100" and "0 \<le> v \<and> v \<le> 100"
  shows "Math_round (js_div3 (js_add (js_add (Fin (of_int f)) (Fin (of_int g))) (Fin (of_int v))))
           = Fin (of_int (round (arithmetic_mean3 (of_int f) (of_int g) (of_int v))))"
proof -
  have "\<bar>f + g\<bar> < 2 ^ 53" using assms by simp
  then have fg: "to_double (of_int (f + g)) = Fin (of_int (f + g))" by (rule to_double_int)
  have "\<bar>f + g + v\<bar> < 2 ^ 53" using assms by simp
  then have fgv: "to_double (of_int (f + g + v)) = Fin (of_int (f + g + v))" by (rule to_double_int)
  have "js_add (Fin (of_int f)) (Fin (of_int g)) = to_double (of_int (f + g))"
    by simp
  then have s1: "js_add (Fin (of_int f)) (Fin (of_int g)) = Fin (of_int (f + g))"
    by (simp only: fg)
  have "js_add (Fin (of_int (f + g))) (Fin (of_int v)) = to_double (of_int (f + g + v))"
    by simp
  then have s2: "js_add (Fin (of_int (f + g))) (Fin (of_int v)) = Fin (of_int (f + g + v))"
    by (simp only: fgv)
  have "0 \<le> f + g + v" "f + g + v \<le> 300" using assms by simp_all
  then have third: "Math_round (js_div3 (Fin (of_int (f + g + v))))
               = Fin (of_int (round (of_int (f + g + v) / 3 :: rat)))"
    by (rule third_rounds_right)
  have mean: "arithmetic_mean3 (of_int f) (of_int g) (of_int v) = of_int (f + g + v) / 3"
    by (simp add: arithmetic_mean3_def)
  show ?thesis by (simp only: s1 s2 third mean)
qed

subsection \<open>The average score\<close>

text \<open>
  C8. The average on the Session Complete screen is not always the rounded arithmetic
  mean of the three sub-scores: the sum is computed in doubles. For the scores 80, 80
  and \<open>81.5 - 2^(-46)\<close> (the double printed as \<open>81.49999999999999\<close>) the sum
  \<open>241.5 - 2^(-46)\<close> lies halfway between two doubles and rounds to 241.5, a third of
  which is 80.5, shown as 81; the mean itself is below 80.5 and rounds to 80.
\<close>

theorem average_double_rounding_counterexample:
  "resultScore (snd (handleRoleplayResponse True
      \<lparr>user_message = Some ''Goodbye'', ai_message = None,
       r_analysis = Some \<lparr>fluency_score = Fin 80, grammar_score = Fin 80,
                          vocabulary_score = Fin (163 / 2 - 1 / 2 ^ 46)\<rparr>,
       is_complete = True, detail = None\<rparr> speaking_init)) = Some (Fin 81)
   \<and> round (arithmetic_mean3 80 80 (163 / 2 - 1 / 2 ^ 46)) = 80"
proof -
  have shown: "Math_round (js_div3 (js_add (js_add (Fin 80) (Fin 80)) (Fin (163 / 2 - 1 / 2 ^ 46))))
                 = Fin 81"
    by code_simp
  have mean: "round (arithmetic_mean3 80 80 (163 / 2 - 1 / 2 ^ 46)) = 80"
    by code_simp
  have res: "resultScore (snd (handleRoleplayResponse True
      \<lparr>user_message = Some ''Goodbye'', ai_message = None,
       r_analysis = Some \<lparr>fluency_score = Fin 80, grammar_score = Fin 80,
                          vocabulary_score = Fin (163 / 2 - 1 / 2 ^ 46)\<rparr>,
       is_complete = True, detail = None\<rparr> speaking_init))
     = Some (Math_round (js_div3 (js_add (js_add (Fin 80) (Fin 80)) (Fin (163 / 2 - 1 / 2 ^ 46)))))"
    by (simp add: handleRoleplayResponse_def showSessionComplete_def showFeedback_def
        addMessage_def Let_def)
  show ?thesis unfolding res shown by (rule conjI [OF refl mean])
qed

text \<open>
  C8, amended. The average shown on the Session Complete screen of a roleplay, and the
  running average shown after each free-talk turn, is \<open>Math.round\<close> of the double
  \<open>(fluency + grammar + vocabulary) / 3\<close>, each sum and the quotient rounded to the
  nearest double. Whenever the three sub-scores are integers from 0 to 100, this is the
  arithmetic mean of the three sub-scores rounded to the nearest integer, the upper one
  of two.
\<close>

theorem average_of_integer_scores_is_rounded_mean:
  assumes "0 \<le> f \<and> f \<le> 100" and "0 \<le> g \<and> g \<le> 100" and "0 \<le> v \<and> v \<le> 100"
  shows
  "(is_complete result
      \<and> r_analysis result = Some \<lparr>fluency_score = Fin (of_int f), grammar_score = Fin (of_int g),
                                    vocabulary_score = Fin (of_int v)\<rparr> \<longrightarrow>
      resultScore (snd (handleRoleplayResponse panel result s))
        = Some (Fin (of_int (round (arithmetic_mean3 (of_int f) (of_int g) (of_int v))))))
   \<and> (session_averages ft = Some \<lparr>fluency = Fin (of_int f), grammar = Fin (of_int g),
                                     vocabulary = Fin (of_int v)\<rparr> \<longrightarrow>
      sessionAvg (snd (handleFreeTalkResponse True ft s))
        = Some (Fin (of_int (round (arithmetic_mean3 (of_int f) (of_int g) (of_int v))))))"
  using mean_of_integer_scores [OF assms]
  by (simp add: handleRoleplayResponse_def handleFreeTalkResponse_def showSessionComplete_def
      showFeedback_def addMessage_def Let_def)

theorem average_of_integer_scores_is_rounded_mean_witness:
  "resultScore (snd (handleRoleplayResponse True
      \<lparr>user_message = Some ''Goodbye'', ai_message = None,
       r_analysis = Some \<lparr>fluency_score = Fin 80, grammar_score = Fin 75, vocabulary_score = Fin 90\<rparr>,
       is_complete = True, detail = None\<rparr> speaking_init)) = Some (Fin 82)
   \<and> sessionAvg (snd (handleFreeTalkResponse True
      \<lparr>ft_user_message = Some ''Hi'', ft_ai_message = Some ''Hello!'',
       session_averages = Some \<lparr>fluency = Fin 80, grammar = Fin 75, vocabulary = Fin 90\<rparr>,
       current_analysis = None\<rparr> speaking_init)) = Some (Fin 82)"
proof -
  have r: "round (arithmetic_mean3 80 75 90) = 82"
    by code_simp
  have b: "(0::int) \<le> 80 \<and> (80::int) \<le> 100" "(0::int) \<le> 75 \<and> (75::int) \<le> 100"
    "(0::int) \<le> 90 \<and> (90::int) \<le> 100"
    by simp_all
  show ?thesis
    using average_of_integer_scores_is_rounded_mean
      [OF b,
       of "\<lparr>user_message = Some ''Goodbye'', ai_message = None,
            r_analysis = Some \<lparr>fluency_score = Fin 80, grammar_score = Fin 75, vocabulary_score = Fin 90\<rparr>,
            is_complete = True, detail = None\<rparr>"
          True speaking_init
          "\<lparr>ft_user_message = Some ''Hi'', ft_ai_message = Some ''Hello!'',
            session_averages = Some \<lparr>fluency = Fin 80, grammar = Fin 75, vocabulary = Fin 90\<rparr>,
            current_analysis = None\<rparr>"]
    by (simp add: r)
qed

subsection \<open>CEFR levels\<close>

lemma level_for_xp_cases:
  "level_for_xp xp =
     (if 0 \<le> xp \<and> xp < 500 then Some A1
      else if 500 \<le> xp \<and> xp < 1500 then Some A2
      else if 1500 \<le> xp \<and> xp < 3500 then Some B1
      else if 3500 \<le> xp \<and> xp < 7000 then Some B2
      else if 7000 \<le> xp \<and> xp < 12000 then Some C1
      else if 12000 \<le> xp \<and> xp < 20000 then Some C2
      else None)"
  by (simp add: level_for_xp_def levels_def)

lemma scoring_event_rank: "rank (cefr_level user) \<le> rank (cefr_level (scoring_event user ev))"
  by (simp add: scoring_event_def score_level_def showResults_def Let_def)

lemma scoring_events_rank: "rank (cefr_level user) \<le> rank (cefr_level (scoring_events evs user))"
  unfolding scoring_events_def
proof (induction evs arbitrary: user)
  case Nil
  show ?case by simp
next
  case (Cons ev evs)
  have "rank (cefr_level user) \<le> rank (cefr_level (scoring_event user ev))"
    by (rule scoring_event_rank)
  also have "\<dots> \<le> rank (cefr_level (foldl scoring_event (scoring_event user ev) evs))"
    by (rule Cons.IH)
  finally show ?case by simp
qed

lemma scoring_events_append:
  "scoring_events (evs @ later) user = scoring_events later (scoring_events evs user)"
  by (simp add: scoring_events_def)

text \<open>
  C9. The threshold table is ascending with contiguous ranges, \<open>A1\<close> covering
  \<open>[0, 500)\<close> and \<open>A2\<close> covering \<open>[500, 1500)\<close>; the level of a scoring event is looked
  up with the XP total after the award; and over any run of scoring events the learner's
  level never decreases.
\<close>

theorem level_table_and_monotone_level:
  "(\<forall>i. Suc i < length levels \<longrightarrow>
        max_xp (levelThresholds (levels ! i)) = min_xp (levelThresholds (levels ! Suc i))
        \<and> rank (Some (levels ! i)) < rank (Some (levels ! Suc i)))
   \<and> (\<forall>l. min_xp (levelThresholds l) < max_xp (levelThresholds l))
   \<and> min_xp (levelThresholds A1) = 0 \<and> max_xp (levelThresholds A1) = 500
   \<and> min_xp (levelThresholds A2) = 500 \<and> max_xp (levelThresholds A2) = 1500
   \<and> (\<forall>l. level_for_xp xp = Some l \<longleftrightarrow>
          min_xp (levelThresholds l) \<le> xp \<and> xp < max_xp (levelThresholds l))
   \<and> (level_up (score_level user earned streak) \<longleftrightarrow>
          rank (cefr_level user) < rank (level_for_xp (xp_total user + earned)))
   \<and> (level_up (score_level user earned streak) \<longrightarrow>
          new_level (score_level user earned streak) = level_for_xp (xp_total user + earned))
   \<and> rank (cefr_level (scoring_events evs user))
        \<le> rank (cefr_level (scoring_events (evs @ later) user))"
proof -
  have contiguous: "\<forall>i. Suc i < length levels \<longrightarrow>
        max_xp (levelThresholds (levels ! i)) = min_xp (levelThresholds (levels ! Suc i))
        \<and> rank (Some (levels ! i)) < rank (Some (levels ! Suc i))"
  proof (intro allI impI)
    fix i assume "Suc i < length levels"
    then have "i \<in> {0, 1, 2, 3, 4}" by (auto simp: levels_def)
    then show "max_xp (levelThresholds (levels ! i)) = min_xp (levelThresholds (levels ! Suc i))
        \<and> rank (Some (levels ! i)) < rank (Some (levels ! Suc i))"
      by (auto simp: levels_def)
  qed
  have nonempty: "\<forall>l. min_xp (levelThresholds l) < max_xp (levelThresholds l)"
  proof
    fix l show "min_xp (levelThresholds l) < max_xp (levelThresholds l)" by (cases l) simp_all
  qed
  have lookup: "\<forall>l. level_for_xp xp = Some l \<longleftrightarrow>
          min_xp (levelThresholds l) \<le> xp \<and> xp < max_xp (levelThresholds l)"
  proof
    fix l show "level_for_xp xp = Some l \<longleftrightarrow>
          min_xp (levelThresholds l) \<le> xp \<and> xp < max_xp (levelThresholds l)"
      by (cases l) (auto simp: level_for_xp_cases)
  qed
  have mono: "rank (cefr_level (scoring_events evs user))
        \<le> rank (cefr_level (scoring_events (evs @ later) user))"
    by (simp add: scoring_events_append scoring_events_rank)
  from contiguous nonempty lookup mono show ?thesis
    by (simp add: score_level_def Let_def)
qed

theorem level_table_and_monotone_level_witness:
  "level_for_xp 510 = Some A2
   \<and> level_up (score_level \<lparr>xp_total = 490, current_streak = 3, cefr_level = Some A1\<rparr> 20 4)
   \<and> new_level (score_level \<lparr>xp_total = 490, current_streak = 3, cefr_level = Some A1\<rparr> 20 4)
       = Some A2
   \<and> rank (cefr_level (scoring_events [(20, 4)]
        \<lparr>xp_total = 490, current_streak = 3, cefr_level = Some A1\<rparr>))
     \<le> rank (cefr_level (scoring_events ([(20, 4)] @ [(0, 4)])
        \<lparr>xp_total = 490, current_streak = 3, cefr_level = Some A1\<rparr>))"
proof -
  have a2: "level_for_xp 510 = Some A2" by (simp add: level_for_xp_cases)
  show ?thesis
    using level_table_and_monotone_level
      [of 510 "\<lparr>xp_total = 490, current_streak = 3, cefr_level = Some A1\<rparr>" 20 4 "[(20, 4)]" "[(0, 4)]"]
    by (simp add: a2)
qed

subsection \<open>The API client\<close>

text \<open>
  C10. A request answered with status 401 clears the stored token and the cached user
  before its error propagates, so \<open>isAuthenticated\<close> is false afterwards; a request that
  fails in any other way leaves the storage as it was.
\<close>

theorem request_clears_token_only_on_401:
  "fst (request st (Response 401 body)) = Inl (Error ''Unauthorized'')
   \<and> snd (request st (Response 401 body)) ''token'' = None
   \<and> snd (request st (Response 401 body)) ''user'' = None
   \<and> \<not> isAuthenticated (snd (request st (Response 401 body)))
   \<and> ((\<forall>b. reply \<noteq> Response 401 b) \<and> fst (request st reply) = Inl e
        \<longrightarrow> snd (request st reply) = st)"
  by (auto simp: request_def clearToken_def isAuthenticated_def getToken_def
      split: http_reply.splits option.splits sum.splits if_splits)

theorem request_clears_token_only_on_401_witness:
  "isAuthenticated [''token'' \<mapsto> ''abc'', ''user'' \<mapsto> ''{}'']
   \<and> \<not> isAuthenticated (snd (request [''token'' \<mapsto> ''abc'', ''user'' \<mapsto> ''{}'']
          (Response 401 None)))
   \<and> fst (request [''token'' \<mapsto> ''abc'', ''user'' \<mapsto> ''{}'']
          (Response 500 (Some (JObj [(''detail'', JStr ''boom'')])))) = Inl (Error ''boom'')
   \<and> snd (request [''token'' \<mapsto> ''abc'', ''user'' \<mapsto> ''{}'']
          (Response 500 (Some (JObj [(''detail'', JStr ''boom'')]))))
       = [''token'' \<mapsto> ''abc'', ''user'' \<mapsto> ''{}'']"
proof -
  have auth: "isAuthenticated [''token'' \<mapsto> ''abc'', ''user'' \<mapsto> ''{}'']"
    by (simp add: isAuthenticated_def getToken_def)
  have fails: "fst (request [''token'' \<mapsto> ''abc'', ''user'' \<mapsto> ''{}'']
          (Response 500 (Some (JObj [(''detail'', JStr ''boom'')])))) = Inl (Error ''boom'')"
    by (simp add: request_def ok_def get_detail_def truthy_def)
  have other: "\<forall>b. Response 500 (Some (JObj [(''detail'', JStr ''boom'')])) \<noteq> Response 401 b"
    by simp
  from auth fails other show ?thesis
    using request_clears_token_only_on_401
      [of "[''token'' \<mapsto> ''abc'', ''user'' \<mapsto> ''{}'']" None
          "Response 500 (Some (JObj [(''detail'', JStr ''boom'')]))" "Error ''boom''"]
    by simp
qed

end
